theory Spec2Isabelle
  imports Complex_Main "HOL-Library.AList"
begin

section \<open>Strings and identifiers\<close>

text \<open>
  Identifiers of the platform are big integers; \<open>entity.id.toString()\<close> renders them in
  decimal. \<open>dec_nat\<close> is that rendering for naturals, \<open>toString\<close> adds the sign.
\<close>

definition digit :: "nat \<Rightarrow> char" where
  "digit n = ''0123456789'' ! (n mod 10)"

function dec_nat :: "nat \<Rightarrow> string" where
  "dec_nat n = (if n < 10 then [digit n] else dec_nat (n div 10) @ [digit n])"
  by pat_completeness auto
termination
  by (relation "measure (\<lambda>n. n)") auto

declare dec_nat.simps [simp del]

definition toString :: "int \<Rightarrow> string" where
  "toString i = (if i < 0 then CHR ''-'' # dec_nat (nat (- i)) else dec_nat (nat i))"

section \<open>Conversations as the transport hands them over\<close>

text \<open>
  The code reads dialogs and entities through \<open>any\<close>. The records hold the fields it reads;
  an absent field (\<open>undefined\<close>) is \<open>None\<close>, a flag read for its truthiness is a \<open>bool\<close>.
  A channel carries both kinds of banned rights on the platform (the account's own
  \<open>bannedRights\<close> and the conversation-wide \<open>defaultBannedRights\<close>); a basic chat
  carries the default ones only. The transport library names the properties of its objects
  in camel case (\<open>inputEntity\<close>, \<open>bannedRights\<close>, \<open>defaultBannedRights\<close>), and so the
  flag of a rights object that forbids sending is its property \<open>sendMessages\<close>.
\<close>

record ChatBannedRights =
  sendMessages :: bool

text \<open>The code reads \<open>br.send_messages\<close>. A rights object has no property of that name, so
  the read gives \<open>undefined\<close> whatever the object holds.\<close>

definition send_messages :: "ChatBannedRights \<Rightarrow> bool option" where
  "send_messages r = None"

record Channel =
  ch_id :: "int option"
  ch_left :: bool
  ch_broadcast :: bool
  ch_megagroup :: bool
  ch_bannedRights :: "ChatBannedRights option"
  ch_defaultBannedRights :: "ChatBannedRights option"

record Chat =
  chat_id :: "int option"
  chat_deactivated :: bool
  chat_left :: bool
  chat_defaultBannedRights :: "ChatBannedRights option"

record User =
  user_id :: "int option"
  user_bot :: bool

text \<open>\<open>OtherEntity\<close> is any payload that is none of the three classes the code tests with
  \<open>instanceof\<close> (a forbidden chat or channel, an empty user).\<close>

datatype entity = EChannel Channel | EChat Chat | EUser User | OtherEntity

text \<open>A send handle (\<open>Api.TypeInputPeer\<close>) is an object; the code compares handles by
  reference (\<open>p.input !== input\<close>), so a handle is its reference.\<close>

type_synonym InputPeer = nat

record Dialog =
  d_title :: "string option"
  d_name :: "string option"
  d_inputEntity :: "InputPeer option"
  d_entity :: "entity option"
  d_isGroup :: bool
  d_isUser :: bool

record WritablePeer =
  title :: string
  input :: InputPeer
  id' :: string

section \<open>Peer id derivation\<close>

datatype exn = TypeError

text \<open>\<open>entity.id.toString()\<close>: reading through an absent id throws.\<close>

definition idToString :: "int option \<Rightarrow> exn + string" where
  "idToString i = (case i of None \<Rightarrow> Inl TypeError | Some n \<Rightarrow> Inr (toString n))"

text \<open>The body of the \<open>try\<close> block of \<open>peerIdString\<close>: \<open>Inr (Some s)\<close> is a \<open>return s\<close>,
  \<open>Inr None\<close> is falling out of the block, \<open>Inl\<close> is a throw.\<close>

fun peerIdString_try :: "entity \<Rightarrow> exn + string option" where
  "peerIdString_try (EChannel c) =
     (case idToString (ch_id c) of Inl x \<Rightarrow> Inl x | Inr s \<Rightarrow> Inr (Some (''channel_'' @ s)))"
| "peerIdString_try (EChat c) =
     (case idToString (chat_id c) of Inl x \<Rightarrow> Inl x | Inr s \<Rightarrow> Inr (Some (''chat_'' @ s)))"
| "peerIdString_try (EUser u) =
     (case idToString (user_id u) of Inl x \<Rightarrow> Inl x | Inr s \<Rightarrow> Inr (Some (''user_'' @ s)))"
| "peerIdString_try OtherEntity = Inr None"

definition peerIdString :: "entity \<Rightarrow> string" where
  "peerIdString e =
     (case peerIdString_try e of
        Inr (Some s) \<Rightarrow> s
      | Inr None \<Rightarrow> ''peer_unknown''
      | Inl _ \<Rightarrow> ''peer_unknown'')"

section \<open>Classification of one dialog\<close>

text \<open>\<open>d.title || d.name || 'Unknown'\<close>: an empty string is falsy.\<close>

definition truthy :: "string option \<Rightarrow> bool" where
  "truthy s = (case s of None \<Rightarrow> False | Some t \<Rightarrow> t \<noteq> [])"

definition dialogTitle :: "Dialog \<Rightarrow> string" where
  "dialogTitle d =
     (if truthy (d_title d) then the (d_title d)
      else if truthy (d_name d) then the (d_name d)
      else ''Unknown'')"

text \<open>\<open>br && br.send_messages\<close>, read for its truthiness.\<close>

definition rightsForbidSend :: "ChatBannedRights option \<Rightarrow> bool" where
  "rightsForbidSend br =
     (case br of
        None \<Rightarrow> False
      | Some r \<Rightarrow> (case send_messages r of None \<Rightarrow> False | Some b \<Rightarrow> b))"

text \<open>The \<open>instanceof\<close> chain of the loop body: \<open>True\<close> when one of its \<open>continue\<close>
  statements is reached.\<close>

fun entitySkipped :: "bool \<Rightarrow> entity \<Rightarrow> bool" where
  "entitySkipped groups_only (EChannel c) =
     (if ch_left c then True
      else if ch_broadcast c then True
      else if \<not> ch_megagroup c then True
      else rightsForbidSend (ch_bannedRights c))"
| "entitySkipped groups_only (EChat c) =
     (if chat_deactivated c then True
      else if chat_left c then True
      else rightsForbidSend (chat_defaultBannedRights c))"
| "entitySkipped groups_only (EUser u) =
     (if groups_only then True else user_bot u)"
| "entitySkipped groups_only OtherEntity = False"

text \<open>The loop body shared by \<open>TelegramService.updateWritableGroups\<close> and
  \<open>getWritablePeers\<close> of the multi-account script (the two bodies make the same tests in
  the same order): \<open>None\<close> is \<open>continue\<close>, \<open>Some p\<close> is the peer that is pushed. The
  inner \<open>catch\<close> skips a dialog on which the body throws; on dialogs and entities that are
  objects the body only reads fields, and the one read that can throw (the id of the
  entity) is caught inside \<open>peerIdString\<close>.\<close>

definition dialogPeer :: "bool \<Rightarrow> Dialog \<Rightarrow> WritablePeer option" where
  "dialogPeer groups_only d =
     (case d_inputEntity d of
        None \<Rightarrow> None
      | Some inp \<Rightarrow>
         (case d_entity d of
            None \<Rightarrow> None
          | Some e \<Rightarrow>
             if (if groups_only then \<not> d_isGroup d else \<not> (d_isGroup d \<or> d_isUser d))
             then None
             else if entitySkipped groups_only e then None
             else Some \<lparr>title = dialogTitle d, input = inp, id' = peerIdString e\<rparr>))"

section \<open>The single-account service\<close>

record TelegramService =
  client :: bool
  groups_only :: bool
  writablePeers :: "WritablePeer list"

datatype error = ClientNotInitialized

text \<open>The \<open>for\<close> loop of \<open>updateWritableGroups\<close>, pushing onto \<open>nextPeers\<close>.\<close>

fun pushPeers :: "bool \<Rightarrow> WritablePeer list \<Rightarrow> Dialog list \<Rightarrow> WritablePeer list" where
  "pushPeers go nextPeers [] = nextPeers"
| "pushPeers go nextPeers (d # ds) =
     (case dialogPeer go d of
        None \<Rightarrow> pushPeers go nextPeers ds
      | Some p \<Rightarrow> pushPeers go (nextPeers @ [p]) ds)"

text \<open>\<open>getDialogs\<close> either throws (\<open>None\<close>) or lists the conversations. The guard on the
  client is outside the \<open>try\<close>; everything else is inside, and the \<open>catch\<close> only logs.\<close>

definition updateWritableGroups ::
  "TelegramService \<Rightarrow> Dialog list option \<Rightarrow> error + TelegramService" where
  "updateWritableGroups svc dialogs =
     (if \<not> client svc then Inl ClientNotInitialized
      else case dialogs of
             None \<Rightarrow> Inr svc
           | Some ds \<Rightarrow> Inr (svc\<lparr>writablePeers := pushPeers (groups_only svc) [] ds\<rparr>))"

section \<open>The pool of the multi-account script\<close>

text \<open>A \<open>Map\<close> keeps its keys in insertion order and \<open>set\<close> on a present key replaces the
  value in place: an association list under \<open>AList.update\<close>.\<close>

record PeerRec =
  p_title :: string
  p_input :: InputPeer

fun setPeers :: "bool \<Rightarrow> (string \<times> PeerRec) list \<Rightarrow> Dialog list \<Rightarrow> (string \<times> PeerRec) list" where
  "setPeers go m [] = m"
| "setPeers go m (d # ds) =
     (case dialogPeer go d of
        None \<Rightarrow> setPeers go m ds
      | Some p \<Rightarrow>
          setPeers go (AList.update (id' p) \<lparr>p_title = title p, p_input = input p\<rparr> m) ds)"

definition getWritablePeers :: "bool \<Rightarrow> Dialog list \<Rightarrow> (string \<times> PeerRec) list" where
  "getWritablePeers go dialogs = setPeers go [] dialogs"

section \<open>Sending through the single-account service\<close>

text \<open>
  \<open>client.sendMessage\<close> either succeeds or throws. A thrown \<open>FloodWaitError\<close> carries
  the platform's whole number of seconds (absent when the field is \<open>undefined\<close>); any other
  thrown value is represented by the text \<open>msg\<close> that the handler computes from it
  (\<open>String(e.message)\<close> or \<open>String(e)\<close>).
\<close>

datatype send_error = FloodWaitError "int option" | OtherError string

datatype send_result = SendOk | SendThrows send_error

record Sent =
  s_input :: InputPeer
  s_message :: string
  s_replyTo :: "int option"

text \<open>The world outside the process: the clock in milliseconds and the log of the calls
  of \<open>client.sendMessage\<close> made so far. The transport answers the \<open>k\<close>-th call (counted
  from 0) with \<open>tr k\<close>.\<close>

record World =
  now :: nat
  sent :: "Sent list"

type_synonym transport = "nat \<Rightarrow> send_result"

definition client_sendMessage :: "transport \<Rightarrow> World \<Rightarrow> Sent \<Rightarrow> send_result \<times> World" where
  "client_sendMessage tr w s = (tr (length (sent w)), w\<lparr>sent := sent w @ [s]\<rparr>)"

text \<open>\<open>await sleep(ms)\<close>: the timer is taken to fire exactly when it is due.\<close>

definition sleep :: "int \<Rightarrow> World \<Rightarrow> World" where
  "sleep ms w = w\<lparr>now := now w + nat ms\<rparr>"

text \<open>The regular expression of \<open>sendMessageTo\<close> is an alternation of five literals under the
  \<open>i\<close> flag, tested anywhere in the text.\<close>

definition toUpper :: "char \<Rightarrow> char" where
  "toUpper c =
     (case map_of (zip ''abcdefghijklmnopqrstuvwxyz'' ''ABCDEFGHIJKLMNOPQRSTUVWXYZ'') c of
        None \<Rightarrow> c
      | Some u \<Rightarrow> u)"

fun startsWith :: "string \<Rightarrow> string \<Rightarrow> bool" where
  "startsWith [] s = True"
| "startsWith (p # ps) [] = False"
| "startsWith (p # ps) (c # cs) = (if p = c then startsWith ps cs else False)"

fun includesStr :: "string \<Rightarrow> string \<Rightarrow> bool" where
  "includesStr p [] = startsWith p []"
| "includesStr p (c # cs) = (if startsWith p (c # cs) then True else includesStr p cs)"

definition testCI :: "string \<Rightarrow> string \<Rightarrow> bool" where
  "testCI p msg = includesStr (map toUpper p) (map toUpper msg)"

definition removePeerError :: "string \<Rightarrow> bool" where
  "removePeerError msg =
     (if testCI ''CHAT_WRITE_FORBIDDEN'' msg then True
      else if testCI ''CHAT_ADMIN_REQUIRED'' msg then True
      else if testCI ''USER_BANNED_IN_CHANNEL'' msg then True
      else if testCI ''PEER_ID_INVALID'' msg then True
      else testCI ''YOU_BLOCKED_USER'' msg)"

text \<open>\<open>(e as any).seconds || 0\<close>\<close>

definition floodSeconds :: "int option \<Rightarrow> int" where
  "floodSeconds secs = (case secs of None \<Rightarrow> 0 | Some s \<Rightarrow> s)"

text \<open>Before \<open>init\<close> has run, \<open>this.client\<close> is \<open>undefined\<close>, and reading its
  \<open>sendMessage\<close> throws a \<open>TypeError\<close> inside the \<open>try\<close>, before any call of the
  transport. The \<open>catch\<close> treats it like any other error, by its text.\<close>

definition noClientText :: string where
  "noClientText =
     ''Cannot read properties of undefined (reading '' @ [CHR 0x27] @ ''sendMessage''
       @ [CHR 0x27] @ '')''"

definition sendMessageTo ::
  "transport \<Rightarrow> TelegramService \<times> World \<Rightarrow> InputPeer \<Rightarrow> string
   \<Rightarrow> bool \<times> TelegramService \<times> World" where
  "sendMessageTo tr sw inp message =
     (case sw of (svc, w) \<Rightarrow>
      (case (if client svc
             then client_sendMessage tr w
                    \<lparr>s_input = inp, s_message = message, s_replyTo = None\<rparr>
             else (SendThrows (OtherError noClientText), w)) of
         (SendOk, w1) \<Rightarrow> (True, svc, w1)
       | (SendThrows (FloodWaitError secs), w1) \<Rightarrow>
           (let seconds = floodSeconds secs in
            if 0 < seconds \<and> seconds < 3600
            then (False, svc, sleep ((seconds + 1) * 1000) w1)
            else (False, svc, w1))
       | (SendThrows (OtherError msg), w1) \<Rightarrow>
           if removePeerError msg
           then (False,
                 svc\<lparr>writablePeers := filter (\<lambda>p. input p \<noteq> inp) (writablePeers svc)\<rparr>,
                 w1)
           else (False, svc, w1)))"

text \<open>\<open>Math.random()\<close> is a value \<open>r\<close> with \<open>0 \<le> r < 1\<close>, taken as a rational, and the
  product with the length is exact here; the code rounds it to a double, which can move the
  index to a neighbour at a whole number and never out of the array. \<open>arr[i]\<close> outside the
  array is \<open>undefined\<close>.\<close>

definition pickRandom :: "rat \<Rightarrow> 'a list \<Rightarrow> 'a option" where
  "pickRandom r arr =
     (if arr = [] then None
      else let i = \<lfloor>r * of_nat (length arr)\<rfloor>
           in if 0 \<le> i \<and> i < int (length arr) then Some (arr ! nat i) else None)"

definition sendRandomMessage ::
  "transport \<Rightarrow> rat \<Rightarrow> TelegramService \<times> World \<Rightarrow> string \<Rightarrow> bool \<times> TelegramService \<times> World" where
  "sendRandomMessage tr r sw txt =
     (case pickRandom r (writablePeers (fst sw)) of
        None \<Rightarrow> (False, fst sw, snd sw)
      | Some peer \<Rightarrow> sendMessageTo tr sw (input peer) txt)"

section \<open>The multi-account script\<close>

record ClientState =
  phone :: string
  selfId :: "string option"
  cs_writablePeers :: "(string \<times> PeerRec) list"

text \<open>The self id: \<open>me.id.toString()\<close>, or \<open>String(undefined)\<close> when \<open>me\<close> has no id. When
  \<open>getMe\<close> throws (\<open>None\<close>) the account is registered without a self id.\<close>

definition resolveSelfId :: "User \<Rightarrow> string" where
  "resolveSelfId me = (case user_id me of None \<Rightarrow> ''undefined'' | Some n \<Rightarrow> toString n)"

definition initClient :: "bool \<Rightarrow> string \<Rightarrow> User option \<Rightarrow> Dialog list \<Rightarrow> ClientState" where
  "initClient go ph me dialogs =
     (case me of
        Some u \<Rightarrow> \<lparr>phone = ph, selfId = Some (resolveSelfId u),
                   cs_writablePeers = getWritablePeers go dialogs\<rparr>
      | None \<Rightarrow> \<lparr>phone = ph, selfId = None,
                 cs_writablePeers = getWritablePeers go dialogs\<rparr>)"

text \<open>\<open>new Set(Array.from(map.keys()))\<close>: the keys in order, each once.\<close>

definition idSet :: "ClientState \<Rightarrow> string list" where
  "idSet c = rev (remdups (rev (map fst (cs_writablePeers c))))"

text \<open>The loop over \<open>idSets[1..]\<close>; \<open>nxt\<close> receives the members of \<open>commonIds\<close> that the
  next set has.\<close>

fun intersectLoop :: "string list \<Rightarrow> string list list \<Rightarrow> string list" where
  "intersectLoop commonIds [] = commonIds"
| "intersectLoop commonIds (s # rest) = intersectLoop (filter (\<lambda>i. i \<in> set s) commonIds) rest"

text \<open>With no client the script exits before the computation (\<open>None\<close>).\<close>

definition computeCommonIds :: "ClientState list \<Rightarrow> string list option" where
  "computeCommonIds cls =
     (case map idSet cls of
        [] \<Rightarrow> None
      | s0 # rest \<Rightarrow> Some (intersectLoop s0 rest))"

subsection \<open>Comment templates\<close>

record Message =
  m_message :: "string option"
  m_text :: "string option"

text \<open>\<open>trim\<close> strips the white space and the line terminators of the language from both
  ends. A string is the UTF-8 bytes of its text, so each of these characters is the byte
  sequence that encodes it: U+0009 to U+000D, U+0020, U+00A0, U+1680, U+2000 to U+200A,
  U+2028, U+2029, U+202F, U+205F, U+3000 and U+FEFF.\<close>

definition whiteSpace :: "string list" where
  "whiteSpace =
     [[CHR 0x09], [CHR 0x0A], [CHR 0x0B], [CHR 0x0C], [CHR 0x0D], [CHR 0x20],
      [CHR 0xC2, CHR 0xA0],
      [CHR 0xE1, CHR 0x9A, CHR 0x80],
      [CHR 0xE2, CHR 0x80, CHR 0x80], [CHR 0xE2, CHR 0x80, CHR 0x81],
      [CHR 0xE2, CHR 0x80, CHR 0x82], [CHR 0xE2, CHR 0x80, CHR 0x83],
      [CHR 0xE2, CHR 0x80, CHR 0x84], [CHR 0xE2, CHR 0x80, CHR 0x85],
      [CHR 0xE2, CHR 0x80, CHR 0x86], [CHR 0xE2, CHR 0x80, CHR 0x87],
      [CHR 0xE2, CHR 0x80, CHR 0x88], [CHR 0xE2, CHR 0x80, CHR 0x89],
      [CHR 0xE2, CHR 0x80, CHR 0x8A],
      [CHR 0xE2, CHR 0x80, CHR 0xA8], [CHR 0xE2, CHR 0x80, CHR 0xA9],
      [CHR 0xE2, CHR 0x80, CHR 0xAF],
      [CHR 0xE2, CHR 0x81, CHR 0x9F],
      [CHR 0xE3, CHR 0x80, CHR 0x80],
      [CHR 0xEF, CHR 0xBB, CHR 0xBF]]"

text \<open>The number of bytes of the sequence of \<open>pats\<close> that \<open>s\<close> starts with, 0 when it starts
  with none.\<close>

definition leading :: "string list \<Rightarrow> string \<Rightarrow> nat" where
  "leading pats s =
     (case filter (\<lambda>p. startsWith p s) pats of [] \<Rightarrow> 0 | p # _ \<Rightarrow> length p)"

text \<open>Dropping every leading sequence of \<open>pats\<close>; \<open>k\<close> counts the bytes still to drop of the
  sequence found last.\<close>

fun stripStart :: "string list \<Rightarrow> nat \<Rightarrow> string \<Rightarrow> string" where
  "stripStart pats k [] = []"
| "stripStart pats (Suc k) (c # cs) = stripStart pats k cs"
| "stripStart pats 0 (c # cs) =
     (if leading pats (c # cs) = 0 then c # cs
      else stripStart pats (leading pats (c # cs) - 1) cs)"

definition trim :: "string \<Rightarrow> string" where
  "trim s = rev (stripStart (map rev whiteSpace) 0 (rev (stripStart whiteSpace 0 s)))"

definition messageText :: "Message \<Rightarrow> string" where
  "messageText m =
     (if truthy (m_message m) then the (m_message m)
      else if truthy (m_text m) then the (m_text m)
      else [])"

fun collectTexts :: "string list \<Rightarrow> Message list \<Rightarrow> string list" where
  "collectTexts texts [] = texts"
| "collectTexts texts (m # ms) =
     (let clean = trim (messageText m)
      in if clean \<noteq> [] then collectTexts (texts @ [clean]) ms else collectTexts texts ms)"

text \<open>\<open>getMessages\<close> (after \<open>getEntity\<close>) answers a limit with the messages, or throws
  (\<open>None\<close>); the \<open>catch\<close> turns a throw into the empty list.\<close>

definition fetchCommentTemplates :: "(int \<Rightarrow> Message list option) \<Rightarrow> int \<Rightarrow> string list" where
  "fetchCommentTemplates getMessages limit =
     (case getMessages (max 1 (min 500 limit)) of
        None \<Rightarrow> []
      | Some res \<Rightarrow> collectTexts [] res)"

record Multi =
  clients :: "ClientState list"
  commonIds :: "string list"
  commentsCache :: "string list"
  ignore_probability :: rat
  max_comment_history :: int

text \<open>\<open>config.runtime.max_comment_history || 200\<close>\<close>

definition historyLimit :: "Multi \<Rightarrow> int" where
  "historyLimit m = (if max_comment_history m = 0 then 200 else max_comment_history m)"

text \<open>The body of the \<open>setInterval\<close> callback that refreshes the templates.\<close>

definition refreshComments :: "(int \<Rightarrow> Message list option) \<Rightarrow> Multi \<Rightarrow> Multi" where
  "refreshComments getMessages m =
     (let list = fetchCommentTemplates getMessages (historyLimit m)
      in if length list > 0 then m\<lparr>commentsCache := list\<rparr> else m)"

subsection \<open>The handler of new messages\<close>

datatype Peer = PeerUser int | PeerChat int | PeerChannel int

record Event =
  ev_chat :: "entity option"
  ev_fromId :: "Peer option"
  ev_msgId :: "int option"

definition senderUid :: "Peer option \<Rightarrow> string option" where
  "senderUid fromId =
     (case fromId of
        Some (PeerUser uid) \<Rightarrow> Some (toString uid)
      | _ \<Rightarrow> None)"

text \<open>\<open>for (const c of clients) if (c.selfId && c.selfId === senderUid) return\<close>\<close>

fun authoredBy :: "ClientState list \<Rightarrow> string \<Rightarrow> bool" where
  "authoredBy [] uid = False"
| "authoredBy (c # cs) uid =
     (if truthy (selfId c) \<and> selfId c = Some uid then True else authoredBy cs uid)"

definition authoredByUs :: "ClientState list \<Rightarrow> Peer option \<Rightarrow> bool" where
  "authoredByUs cls fromId =
     (if truthy (senderUid fromId) then authoredBy cls (the (senderUid fromId)) else False)"

text \<open>The values of \<open>Math.random()\<close> that one run of the handler may draw, in the order of
  the draws.\<close>

record Draws =
  r_ignore :: rat
  r_comment :: rat
  r_refetched :: rat
  r_client :: rat

text \<open>\<open>pickRandom(commentsCache) || ''\<close>\<close>

definition pickComment :: "rat \<Rightarrow> string list \<Rightarrow> string" where
  "pickComment r cache = (case pickRandom r cache of None \<Rightarrow> [] | Some c \<Rightarrow> c)"

text \<open>How one run of the handler ends: at one of its \<open>return\<close> statements, or after the
  send (answered, dropped on a flood wait, or failed and logged). The outer \<open>catch\<close> logs
  any other throw and ends the run without a send.\<close>

text \<open>The handler awaits the fetch on demand and assigns the cache after it. Other callbacks
  (the refresh timer, another run of the handler) can run during that wait; \<open>meanwhile\<close> is
  what they do to the state and the world, the identity when none runs. The awaits before
  the first read of the state and after the last write need no such step.\<close>

datatype Handled =
  NoChat | NotCommon | OwnMessage | Ignored | NoComment | NoClient | NoInput
  | Replied | FloodSkipped | SendFailed

definition reply ::
  "transport \<Rightarrow> Multi \<times> World \<Rightarrow> InputPeer \<Rightarrow> string \<Rightarrow> int option \<Rightarrow> Handled \<times> Multi \<times> World" where
  "reply tr mw inputPeer comment msgId =
     (case mw of (m, w) \<Rightarrow>
      (case client_sendMessage tr w
              \<lparr>s_input = inputPeer, s_message = comment, s_replyTo = msgId\<rparr> of
         (SendOk, w1) \<Rightarrow> (Replied, m, w1)
       | (SendThrows (FloodWaitError secs), w1) \<Rightarrow> (FloodSkipped, m, w1)
       | (SendThrows (OtherError msg), w1) \<Rightarrow> (SendFailed, m, w1)))"

definition handler ::
  "transport \<Rightarrow> (int \<Rightarrow> Message list option) \<Rightarrow> (Multi \<times> World \<Rightarrow> Multi \<times> World)
   \<Rightarrow> Draws \<Rightarrow> Multi \<times> World \<Rightarrow> Event \<Rightarrow> Handled \<times> Multi \<times> World" where
  "handler tr getMessages meanwhile dr mw ev =
     (case mw of (m, w) \<Rightarrow>
      (case ev_chat ev of
         None \<Rightarrow> (NoChat, m, w)
       | Some chat \<Rightarrow>
          (let pid = peerIdString chat in
           if pid \<notin> set (commonIds m) then (NotCommon, m, w)
           else if authoredByUs (clients m) (ev_fromId ev) then (OwnMessage, m, w)
           else if r_ignore dr < ignore_probability m then (Ignored, m, w)
           else
            (let comment = pickComment (r_comment dr) (commentsCache m);
                 list = fetchCommentTemplates getMessages (historyLimit m);
                 m1 = (if comment = []
                       then (fst (meanwhile (m, w)))\<lparr>commentsCache := list\<rparr>
                       else m);
                 w1 = (if comment = [] then snd (meanwhile (m, w)) else w);
                 comment1 = (if comment = []
                             then pickComment (r_refetched dr) (commentsCache m1)
                             else comment)
             in if comment1 = [] then (NoComment, m1, w1)
                else
                 (case pickRandom (r_client dr) (clients m1) of
                    None \<Rightarrow> (NoClient, m1, w1)
                  | Some chosen \<Rightarrow>
                     (case map_of (cs_writablePeers chosen) pid of
                        None \<Rightarrow> (NoInput, m1, w1)
                      | Some rec \<Rightarrow>
                          reply tr (m1, w1) (p_input rec) comment1 (ev_msgId ev)))))))"

section \<open>Example inputs\<close>

text \<open>A basic group, a broadcast channel, two discussion channels with a send restriction
  (one in the conversation-wide default rights, one in the account's own rights), a basic
  group whose default rights forbid sending, and conversations whose payload is none of
  the three recognised classes.\<close>

definition friendsChat :: Chat where
  "friendsChat = \<lparr>chat_id = Some 5, chat_deactivated = False, chat_left = False,
                   chat_defaultBannedRights = None\<rparr>"

definition friendsDialog :: Dialog where
  "friendsDialog = \<lparr>d_title = Some ''Friends'', d_name = None, d_inputEntity = Some 11,
                     d_entity = Some (EChat friendsChat), d_isGroup = True, d_isUser = False\<rparr>"

definition newsChannel :: Channel where
  "newsChannel = \<lparr>ch_id = Some 8, ch_left = False, ch_broadcast = True, ch_megagroup = False,
                   ch_bannedRights = None, ch_defaultBannedRights = None\<rparr>"

definition newsDialog :: Dialog where
  "newsDialog = \<lparr>d_title = Some ''News'', d_name = None, d_inputEntity = Some 12,
                  d_entity = Some (EChannel newsChannel), d_isGroup = False, d_isUser = False\<rparr>"

definition lockedChannel :: Channel where
  "lockedChannel = \<lparr>ch_id = Some 9, ch_left = False, ch_broadcast = False, ch_megagroup = True,
                     ch_bannedRights = None,
                     ch_defaultBannedRights = Some \<lparr>sendMessages = True\<rparr>\<rparr>"

definition lockedDialog :: Dialog where
  "lockedDialog = \<lparr>d_title = Some ''Locked'', d_name = None, d_inputEntity = Some 13,
                    d_entity = Some (EChannel lockedChannel), d_isGroup = True, d_isUser = False\<rparr>"

definition mutedChannel :: Channel where
  "mutedChannel = \<lparr>ch_id = Some 10, ch_left = False, ch_broadcast = False, ch_megagroup = True,
                    ch_bannedRights = Some \<lparr>sendMessages = True\<rparr>,
                    ch_defaultBannedRights = None\<rparr>"

definition mutedDialog :: Dialog where
  "mutedDialog = \<lparr>d_title = Some ''Muted'', d_name = None, d_inputEntity = Some 14,
                   d_entity = Some (EChannel mutedChannel), d_isGroup = True, d_isUser = False\<rparr>"

definition readOnlyChat :: Chat where
  "readOnlyChat = \<lparr>chat_id = Some 6, chat_deactivated = False, chat_left = False,
                    chat_defaultBannedRights = Some \<lparr>sendMessages = True\<rparr>\<rparr>"

definition readOnlyDialog :: Dialog where
  "readOnlyDialog = \<lparr>d_title = Some ''Read only'', d_name = None, d_inputEntity = Some 16,
                      d_entity = Some (EChat readOnlyChat), d_isGroup = True, d_isUser = False\<rparr>"

definition forbiddenDialog :: "InputPeer \<Rightarrow> Dialog" where
  "forbiddenDialog h = \<lparr>d_title = None, d_name = Some ''Gone'', d_inputEntity = Some h,
                         d_entity = Some OtherEntity, d_isGroup = True, d_isUser = False\<rparr>"

text \<open>A service with two peers in its pool, the world at time 0 with nothing sent, and
  transports that answer with a flood wait, with a flood wait followed by successes, and
  with another error.\<close>

definition service0 :: TelegramService where
  "service0 = \<lparr>client = True, groups_only = True,
                writablePeers = [\<lparr>title = ''Friends'', input = 11, id' = ''chat_5''\<rparr>,
                                 \<lparr>title = ''Work'', input = 15, id' = ''channel_7''\<rparr>]\<rparr>"

definition world0 :: World where
  "world0 = \<lparr>now = 0, sent = []\<rparr>"

definition floodOf :: "int \<Rightarrow> transport" where
  "floodOf s k = SendThrows (FloodWaitError (Some s))"

definition floodThenOk :: "int \<Rightarrow> transport" where
  "floodThenOk s k = (if k = 0 then SendThrows (FloodWaitError (Some s)) else SendOk)"

definition failWith :: "string \<Rightarrow> transport" where
  "failWith msg k = SendThrows (OtherError msg)"

definition allOk :: transport where
  "allOk k = SendOk"

text \<open>The service and the world right after a send that was answered with a flood wait of
  4000 seconds, and the world one minute into the wait that follows a flood wait of 120
  seconds (the timer of the next post fires while the first call still sleeps).\<close>

definition afterLongFlood :: "TelegramService \<times> World" where
  "afterLongFlood = snd (sendMessageTo (floodThenOk 4000) (service0, world0) 11 ''hi'')"

definition duringWait :: "TelegramService \<times> World" where
  "duringWait =
     (service0,
      sleep 60000
        (snd (client_sendMessage (floodThenOk 120) world0
               \<lparr>s_input = 11, s_message = ''hi'', s_replyTo = None\<rparr>)))"

text \<open>Three accounts of the multi-account script: two that share the basic group, one whose
  \<open>getMe\<close> failed and whose pool is empty.\<close>

definition alice :: ClientState where
  "alice = initClient True ''+100'' (Some \<lparr>user_id = Some 1001, user_bot = False\<rparr>)
             [friendsDialog, newsDialog]"

definition bob :: ClientState where
  "bob = initClient True ''+200'' (Some \<lparr>user_id = Some 1002, user_bot = False\<rparr>)
           [lockedDialog, friendsDialog]"

definition carol :: ClientState where
  "carol = initClient True ''+300'' None []"

definition multi0 :: Multi where
  "multi0 = \<lparr>clients = [alice, bob], commonIds = [''chat_5''],
              commentsCache = [''nice'', ''agreed''], ignore_probability = 1 / 2,
              max_comment_history = 200\<rparr>"

definition multiEmpty :: Multi where
  "multiEmpty = multi0\<lparr>commentsCache := []\<rparr>"

definition draws0 :: Draws where
  "draws0 = \<lparr>r_ignore = 3 / 4, r_comment = 1 / 2, r_refetched = 0, r_client = 1 / 4\<rparr>"

definition postBy :: "int \<Rightarrow> Event" where
  "postBy uid = \<lparr>ev_chat = Some (EChat friendsChat), ev_fromId = Some (PeerUser uid),
                  ev_msgId = Some 77\<rparr>"

text \<open>What can happen while the handler awaits its fetch: nothing, or the refresh timer fires
  and reads the source when it holds a usable message. The source as the handler's own
  fetch finds it: with one blank message, with a usable one, or not at all (the fetch
  throws).\<close>

definition nothingMeanwhile :: "Multi \<times> World \<Rightarrow> Multi \<times> World" where
  "nothingMeanwhile mw = mw"

definition failingHistory :: "int \<Rightarrow> Message list option" where
  "failingHistory limit = None"

definition blankHistory :: "int \<Rightarrow> Message list option" where
  "blankHistory limit = Some [\<lparr>m_message = Some ''  '', m_text = None\<rparr>]"

definition freshHistory :: "int \<Rightarrow> Message list option" where
  "freshHistory limit = Some [\<lparr>m_message = Some '' hello '', m_text = None\<rparr>,
                              \<lparr>m_message = None, m_text = Some ''''\<rparr>]"

definition timerFires :: "Multi \<times> World \<Rightarrow> Multi \<times> World" where
  "timerFires mw = (refreshComments freshHistory (fst mw), snd mw)"

section \<open>Helper lemmas\<close>



lemma pushPeers_append: "pushPeers go acc (xs @ ys) = pushPeers go (pushPeers go acc xs) ys"
  by (induction xs arbitrary: acc) (auto split: option.splits)

lemma setPeers_append: "setPeers go m (xs @ ys) = setPeers go (setPeers go m xs) ys"
  by (induction xs arbitrary: m) (auto split: option.splits)

lemma pushPeers_skip:
  "dialogPeer go d = None \<Longrightarrow> pushPeers go acc (before @ d # after) = pushPeers go acc (before @ after)"
  by (simp add: pushPeers_append)

lemma setPeers_skip:
  "dialogPeer go d = None \<Longrightarrow> setPeers go m (before @ d # after) = setPeers go m (before @ after)"
  by (simp add: setPeers_append)

lemma skipped_no_peer:
  "entitySkipped go e \<Longrightarrow> d_entity d = Some e \<Longrightarrow> dialogPeer go d = None"
  by (cases go) (simp_all add: dialogPeer_def split: option.splits)

lemma distinct_key_once:
  "distinct (map fst xs) \<Longrightarrow> length (filter (\<lambda>kv. fst kv = k) xs) \<le> 1"
proof (induction xs)
  case Nil
  then show ?case by simp
next
  case (Cons x xs)
  show ?case
  proof (cases "fst x = k")
    case True
    with Cons.prems have "filter (\<lambda>kv. fst kv = k) xs = []"
      by (auto simp: filter_empty_conv image_iff)
    with True show ?thesis by simp
  next
    case False
    with Cons show ?thesis by simp
  qed
qed

lemma distinct_setPeers: "distinct (map fst m) \<Longrightarrow> distinct (map fst (setPeers go m ds))"
  by (induction ds arbitrary: m) (auto split: option.splits simp: distinct_update)

section \<open>Classification\<close>

text \<open>
  C5. A dialog whose entity is a channel with the broadcast flag never yields a peer, with
  \<open>groups_only\<close> set or not: the loop body reaches a \<open>continue\<close>, so both pool builders (the
  list of the single-account service and the map of the multi-account script) produce
  the pool they would produce without that dialog.
\<close>

theorem broadcast_never_eligible:
  assumes "d_entity d = Some (EChannel c)" and "ch_broadcast c"
  shows "dialogPeer go d = None
       \<and> pushPeers go acc (before @ d # after) = pushPeers go acc (before @ after)
       \<and> setPeers go m (before @ d # after) = setPeers go m (before @ after)"
proof -
  have "entitySkipped go (EChannel c)"
    using assms(2) by simp
  then have none: "dialogPeer go d = None"
    using assms(1) by (rule skipped_no_peer)
  show ?thesis
    using none pushPeers_skip [OF none] setPeers_skip [OF none] by simp
qed

text \<open>The broadcast channel of the examples, under both policies; the pool built from a
  batch that holds it has the basic group alone.\<close>

theorem broadcast_never_eligible_witness:
  "d_entity newsDialog = Some (EChannel newsChannel) \<and> ch_broadcast newsChannel
   \<and> dialogPeer True newsDialog = None \<and> dialogPeer False newsDialog = None
   \<and> pushPeers True [] ([friendsDialog] @ newsDialog # [])
       = [\<lparr>title = ''Friends'', input = 11, id' = ''chat_5''\<rparr>]"
proof -
  have h1: "d_entity newsDialog = Some (EChannel newsChannel)"
    by (simp add: newsDialog_def)
  have h2: "ch_broadcast newsChannel"
    by (simp add: newsChannel_def)
  have pool: "pushPeers True [] ([friendsDialog] @ []) = [\<lparr>title = ''Friends'', input = 11, id' = ''chat_5''\<rparr>]"
    by code_simp
  from broadcast_never_eligible [OF h1 h2, where go = True and acc = "[]"
      and before = "[friendsDialog]" and after = "[]"]
    broadcast_never_eligible [OF h1 h2, where go = False]
  show ?thesis using h1 h2 pool by metis
qed

lemma rightsForbidSend_never: "rightsForbidSend br = False"
  by (simp add: rightsForbidSend_def send_messages_def split: option.splits)

text \<open>
  C3 fails on the code. The restriction test of both loops reads \<open>send_messages\<close>, which no
  rights object carries, so it never holds; and the channel branch does not look at the
  default rights at all. A discussion channel in which the account itself is banned from
  sending, one whose default rights forbid sending, and a basic group whose default rights
  forbid sending are each classified writable, under either policy.
\<close>

theorem send_restricted_classified_writable:
  "ch_bannedRights mutedChannel = Some \<lparr>sendMessages = True\<rparr>
   \<and> dialogPeer True mutedDialog = Some \<lparr>title = ''Muted'', input = 14, id' = ''channel_10''\<rparr>
   \<and> dialogPeer False mutedDialog = Some \<lparr>title = ''Muted'', input = 14, id' = ''channel_10''\<rparr>
   \<and> ch_defaultBannedRights lockedChannel = Some \<lparr>sendMessages = True\<rparr>
   \<and> dialogPeer True lockedDialog = Some \<lparr>title = ''Locked'', input = 13, id' = ''channel_9''\<rparr>
   \<and> dialogPeer False lockedDialog = Some \<lparr>title = ''Locked'', input = 13, id' = ''channel_9''\<rparr>
   \<and> chat_defaultBannedRights readOnlyChat = Some \<lparr>sendMessages = True\<rparr>
   \<and> dialogPeer True readOnlyDialog
       = Some \<lparr>title = ''Read only'', input = 16, id' = ''chat_6''\<rparr>
   \<and> dialogPeer False readOnlyDialog
       = Some \<lparr>title = ''Read only'', input = 16, id' = ''chat_6''\<rparr>"
  by (simp add: dialogPeer_def peerIdString_def idToString_def dialogTitle_def truthy_def
      rightsForbidSend_never toString_def dec_nat.simps digit_def
      mutedChannel_def mutedDialog_def lockedChannel_def lockedDialog_def
      readOnlyChat_def readOnlyDialog_def)

section \<open>Peer ids\<close>

text \<open>
  C9. \<open>peerIdString\<close> returns a string for every entity and never throws: \<open>channel_<n>\<close>,
  \<open>chat_<n>\<close> or \<open>user_<n>\<close> for a channel, chat or user with id \<open>n\<close>, and
  \<open>peer_unknown\<close> for any other entity and when reading the id throws. So every
  unrecognised conversation that is classified writable gets the id \<open>peer_unknown\<close>, and
  the pool map of an account has at most one entry under that key.
\<close>

theorem peerIdString_total:
  "peerIdString e =
     (case e of
        EChannel c \<Rightarrow>
          (case ch_id c of Some n \<Rightarrow> ''channel_'' @ toString n | None \<Rightarrow> ''peer_unknown'')
      | EChat c \<Rightarrow>
          (case chat_id c of Some n \<Rightarrow> ''chat_'' @ toString n | None \<Rightarrow> ''peer_unknown'')
      | EUser u \<Rightarrow>
          (case user_id u of Some n \<Rightarrow> ''user_'' @ toString n | None \<Rightarrow> ''peer_unknown'')
      | OtherEntity \<Rightarrow> ''peer_unknown'')
   \<and> (d_entity d = Some OtherEntity \<longrightarrow> dialogPeer go d = Some p \<longrightarrow> id' p = ''peer_unknown'')
   \<and> length (filter (\<lambda>kv. fst kv = ''peer_unknown'') (getWritablePeers go ds)) \<le> 1"
proof -
  have a: "peerIdString e =
     (case e of
        EChannel c \<Rightarrow>
          (case ch_id c of Some n \<Rightarrow> ''channel_'' @ toString n | None \<Rightarrow> ''peer_unknown'')
      | EChat c \<Rightarrow>
          (case chat_id c of Some n \<Rightarrow> ''chat_'' @ toString n | None \<Rightarrow> ''peer_unknown'')
      | EUser u \<Rightarrow>
          (case user_id u of Some n \<Rightarrow> ''user_'' @ toString n | None \<Rightarrow> ''peer_unknown'')
      | OtherEntity \<Rightarrow> ''peer_unknown'')"
    by (cases e) (simp_all add: peerIdString_def idToString_def split: option.splits)
  have b: "d_entity d = Some OtherEntity \<longrightarrow> dialogPeer go d = Some p
             \<longrightarrow> id' p = ''peer_unknown''"
    by (auto simp: dialogPeer_def peerIdString_def split: option.splits if_splits)
  have "distinct (map fst (getWritablePeers go ds))"
    unfolding getWritablePeers_def by (rule distinct_setPeers) simp
  then have c: "length (filter (\<lambda>kv. fst kv = ''peer_unknown'') (getWritablePeers go ds)) \<le> 1"
    by (rule distinct_key_once)
  show ?thesis using a b c by blast
qed

text \<open>Two forbidden conversations in one batch: both are classified writable under the one
  key, and the map keeps a single entry, that of the later one.\<close>

theorem peerIdString_total_witness:
  "peerIdString (EChat friendsChat) = ''chat_5''
   \<and> peerIdString (EUser \<lparr>user_id = None, user_bot = False\<rparr>) = ''peer_unknown''
   \<and> d_entity (forbiddenDialog 21) = Some OtherEntity
   \<and> dialogPeer True (forbiddenDialog 21)
       = Some \<lparr>title = ''Gone'', input = 21, id' = ''peer_unknown''\<rparr>
   \<and> getWritablePeers True [forbiddenDialog 21, forbiddenDialog 22]
       = [(''peer_unknown'', \<lparr>p_title = ''Gone'', p_input = 22\<rparr>)]"
proof -
  have 1: "peerIdString (EChat friendsChat) = ''chat_5''" by code_simp
  have 2: "peerIdString (EUser \<lparr>user_id = None, user_bot = False\<rparr>) = ''peer_unknown''"
    by code_simp
  have 3: "d_entity (forbiddenDialog 21) = Some OtherEntity"
    by (simp add: forbiddenDialog_def)
  have 4: "dialogPeer True (forbiddenDialog 21)
       = Some \<lparr>title = ''Gone'', input = 21, id' = ''peer_unknown''\<rparr>"
    by code_simp
  have 5: "getWritablePeers True [forbiddenDialog 21, forbiddenDialog 22]
       = [(''peer_unknown'', \<lparr>p_title = ''Gone'', p_input = 22\<rparr>)]"
    by code_simp
  from peerIdString_total [of "EChat friendsChat" "forbiddenDialog 21" True
      "\<lparr>title = ''Gone'', input = 21, id' = ''peer_unknown''\<rparr>"
      "[forbiddenDialog 21, forbiddenDialog 22]"]
  show ?thesis using 1 2 3 4 5 by simp
qed

section \<open>Refreshing the pool of the single-account service\<close>

text \<open>
  C10. When the service has its client and listing the conversations throws,
  \<open>updateWritableGroups\<close> returns normally (no error reaches the caller) and the service,
  its pool included, is exactly what it was: \<open>writablePeers\<close> is assigned only after the
  loop has built the whole new list.
\<close>

theorem refresh_failure_keeps_pool:
  assumes "client svc"
  shows "updateWritableGroups svc None = Inr svc"
  using assms by (simp add: updateWritableGroups_def)

theorem refresh_failure_keeps_pool_witness:
  "client service0 \<and> updateWritableGroups service0 None = Inr service0
   \<and> writablePeers service0 \<noteq> []"
proof -
  have h: "client service0" by (simp add: service0_def)
  have p: "writablePeers service0 \<noteq> []" by (simp add: service0_def)
  from refresh_failure_keeps_pool [OF h] show ?thesis using h p by simp
qed

lemmas send_simps = sendMessageTo_def client_sendMessage_def sleep_def floodSeconds_def
  floodOf_def floodThenOk_def failWith_def allOk_def world0_def service0_def

lemmas peer_simps = dialogPeer_def peerIdString_def idToString_def dialogTitle_def truthy_def
  rightsForbidSend_def toString_def dec_nat.simps digit_def getWritablePeers_def

lemmas example_simps = friendsChat_def friendsDialog_def newsChannel_def newsDialog_def
  lockedChannel_def lockedDialog_def mutedChannel_def mutedDialog_def forbiddenDialog_def
  readOnlyChat_def readOnlyDialog_def
  alice_def bob_def carol_def initClient_def resolveSelfId_def multi0_def multiEmpty_def
  draws0_def postBy_def blankHistory_def freshHistory_def failingHistory_def
  nothingMeanwhile_def timerFires_def

lemmas handler_simps = handler_def reply_def authoredByUs_def senderUid_def pickComment_def
  pickRandom_def fetchCommentTemplates_def historyLimit_def messageText_def trim_def
  whiteSpace_def leading_def refreshComments_def

lemma alice_eq:
  "alice = \<lparr>phone = ''+100'', selfId = Some ''1001'',
      cs_writablePeers = [(''chat_5'', \<lparr>p_title = ''Friends'', p_input = 11\<rparr>)]\<rparr>"
  by (simp add: peer_simps example_simps)

lemma bob_eq:
  "bob = \<lparr>phone = ''+200'', selfId = Some ''1002'',
      cs_writablePeers = [(''channel_9'', \<lparr>p_title = ''Locked'', p_input = 13\<rparr>),
                          (''chat_5'', \<lparr>p_title = ''Friends'', p_input = 11\<rparr>)]\<rparr>"
  by (simp add: peer_simps example_simps)

lemma carol_eq: "carol = \<lparr>phone = ''+300'', selfId = None, cs_writablePeers = []\<rparr>"
  by (simp add: peer_simps example_simps)

section \<open>Sending through the single-account service\<close>

text \<open>
  C1, as stated, fails: the service keeps no blocked-until time, and a send is attempted
  while a signalled flood wait has not elapsed. Right after a flood wait of 4000 seconds
  was signalled at time 0 (no sleep follows, the clock still reads 0), and one minute into
  the sleep that follows a flood wait of 120 seconds, the next call of \<open>sendMessageTo\<close>
  invokes \<open>client.sendMessage\<close> (two calls are logged) and returns \<open>true\<close>.
\<close>

theorem flood_blocked_send_counterexample:
  "now (snd afterLongFlood) < 4000 * 1000
   \<and> fst (sendMessageTo (floodThenOk 4000) afterLongFlood 11 ''again'') = True
   \<and> length (sent (snd (snd (sendMessageTo (floodThenOk 4000) afterLongFlood 11 ''again'')))) = 2
   \<and> now (snd duringWait) < 120 * 1000
   \<and> fst (sendMessageTo (floodThenOk 120) duringWait 15 ''again'') = True
   \<and> length (sent (snd (snd (sendMessageTo (floodThenOk 120) duringWait 15 ''again'')))) = 2"
  by (simp add: send_simps afterLongFlood_def duringWait_def)

text \<open>
  C1 (amended). \<open>sendMessageTo\<close> has no skipped outcome: once the service has its client,
  in every state of the pool and of the world, whatever the transport answered before, a
  call invokes \<open>client.sendMessage\<close> exactly once with the given handle and message.
\<close>

theorem send_always_invokes_transport:
  assumes "client svc"
  shows "sent (snd (snd (sendMessageTo tr (svc, w) inp message)))
           = sent w @ [\<lparr>s_input = inp, s_message = message, s_replyTo = None\<rparr>]"
  using assms
  by (simp add: sendMessageTo_def client_sendMessage_def sleep_def Let_def
      split: send_result.splits send_error.splits)

theorem send_always_invokes_transport_witness:
  "client service0
   \<and> sent (snd (snd (sendMessageTo (floodOf 30) (service0, world0) 11 ''hi'')))
       = [\<lparr>s_input = 11, s_message = ''hi'', s_replyTo = None\<rparr>]"
proof -
  have h: "client service0" by (simp add: service0_def)
  from send_always_invokes_transport [OF h, of "floodOf 30" world0 11 "''hi''"]
  show ?thesis using h by (simp add: world0_def)
qed

text \<open>Without a client the call fails before the transport is reached: nothing is sent, the
  result is \<open>false\<close>, and the service and the world are as they were.\<close>

lemma removePeerError_noClientText: "\<not> removePeerError noClientText"
  by code_simp

lemma send_without_client:
  "\<not> client svc \<Longrightarrow> sendMessageTo tr (svc, w) inp message = (False, svc, w)"
  by (simp add: sendMessageTo_def removePeerError_noClientText)

text \<open>
  C4, as stated, fails in its outcome: a flood wait of 4000 seconds and one of 30 seconds
  give the caller the same result, \<open>false\<close>; the code has a single failure outcome and does
  not tell a long wait (Failed) from a served one (Retried).
\<close>

theorem long_flood_outcome_counterexample:
  "fst (sendMessageTo (floodOf 4000) (service0, world0) 11 ''hi'') = False
   \<and> fst (sendMessageTo (floodOf 30) (service0, world0) 11 ''hi'') = False"
  by (simp add: send_simps)

text \<open>
  C4 (amended). When the send of a service that has its client is answered with a flood wait of \<open>s\<close> seconds (0 when the
  field is absent), \<open>sendMessageTo\<close> returns \<open>false\<close> and leaves the service as it was; the
  clock at its return is that of the call when \<open>s \<le> 0\<close> or \<open>s \<ge> 3600\<close> (no suspension),
  and \<open>(s + 1) * 1000\<close> milliseconds later otherwise.
\<close>

theorem flood_wait_suspension:
  assumes "client svc"
    and "tr (length (sent w)) = SendThrows (FloodWaitError secs)"
  shows "fst (sendMessageTo tr (svc, w) inp message) = False
       \<and> fst (snd (sendMessageTo tr (svc, w) inp message)) = svc
       \<and> now (snd (snd (sendMessageTo tr (svc, w) inp message)))
           = (if 0 < floodSeconds secs \<and> floodSeconds secs < 3600
              then now w + nat ((floodSeconds secs + 1) * 1000)
              else now w)"
  using assms
  by (simp add: sendMessageTo_def client_sendMessage_def sleep_def Let_def)

text \<open>Flood waits of 30, 0, 3599, 3600 and 4000 seconds at time 0: the call returns at
  31 s (at least 30 and less than 32), at 0, at 3600 s, at 0 and at 0.\<close>

theorem flood_wait_suspension_witness:
  "client service0
   \<and> floodOf 30 (length (sent world0)) = SendThrows (FloodWaitError (Some 30))
   \<and> now (snd (snd (sendMessageTo (floodOf 30) (service0, world0) 11 ''hi''))) = 31000
   \<and> now (snd (snd (sendMessageTo (floodOf 0) (service0, world0) 11 ''hi''))) = 0
   \<and> now (snd (snd (sendMessageTo (floodOf 3599) (service0, world0) 11 ''hi''))) = 3600000
   \<and> now (snd (snd (sendMessageTo (floodOf 3600) (service0, world0) 11 ''hi''))) = 0
   \<and> now (snd (snd (sendMessageTo (floodOf 4000) (service0, world0) 11 ''hi''))) = 0"
proof -
  have h: "floodOf s (length (sent world0)) = SendThrows (FloodWaitError (Some s))" for s
    by (simp add: floodOf_def)
  have n: "now world0 = 0"
    by (simp add: world0_def)
  have cl: "client service0"
    by (simp add: service0_def)
  from flood_wait_suspension [where tr = "floodOf 30" and w = world0 and svc = service0
        and inp = 11 and message = "''hi''", OF cl h]
    flood_wait_suspension [where tr = "floodOf 0" and w = world0 and svc = service0
        and inp = 11 and message = "''hi''", OF cl h]
    flood_wait_suspension [where tr = "floodOf 3599" and w = world0 and svc = service0
        and inp = 11 and message = "''hi''", OF cl h]
    flood_wait_suspension [where tr = "floodOf 3600" and w = world0 and svc = service0
        and inp = 11 and message = "''hi''", OF cl h]
    flood_wait_suspension [where tr = "floodOf 4000" and w = world0 and svc = service0
        and inp = 11 and message = "''hi''", OF cl h]
  show ?thesis using cl h [of 30] n by (simp add: floodSeconds_def)
qed

text \<open>
  C8, as stated, fails on the reply path of the multi-account script: a reply rejected with
  \<open>CHAT_WRITE_FORBIDDEN\<close> is logged and nothing else; the script's state, the pools of its
  accounts included, is what it was, so the peer stays in the pool of the account that
  sent.
\<close>

theorem rejected_reply_keeps_peer_counterexample:
  "removePeerError ''CHAT_WRITE_FORBIDDEN''
   \<and> fst (handler (failWith ''CHAT_WRITE_FORBIDDEN'') blankHistory nothingMeanwhile draws0 (multi0, world0)
            (postBy 555)) = SendFailed
   \<and> fst (snd (handler (failWith ''CHAT_WRITE_FORBIDDEN'') blankHistory nothingMeanwhile draws0 (multi0, world0)
                 (postBy 555))) = multi0
   \<and> map_of (cs_writablePeers alice) ''chat_5'' = Some \<lparr>p_title = ''Friends'', p_input = 11\<rparr>"
proof -
  have 1: "removePeerError ''CHAT_WRITE_FORBIDDEN''"
    by code_simp
  have 2: "handler (failWith ''CHAT_WRITE_FORBIDDEN'') blankHistory nothingMeanwhile draws0 (multi0, world0)
             (postBy 555)
           = (SendFailed, multi0,
              \<lparr>now = 0,
                 sent = [\<lparr>s_input = 11, s_message = ''agreed'', s_replyTo = Some 77\<rparr>]\<rparr>)"
    unfolding multi0_def alice_eq bob_eq
    by (simp add: handler_simps peer_simps send_simps draws0_def postBy_def friendsChat_def
        Let_def)
  show ?thesis using 1 2 by (simp add: alice_eq)
qed

text \<open>
  C8 (amended). When a send through \<open>sendMessageTo\<close> of the single-account service (with
  its client) throws
  an error other than a flood wait, the call returns \<open>false\<close>; if the error text holds one
  of \<open>CHAT_WRITE_FORBIDDEN\<close>, \<open>CHAT_ADMIN_REQUIRED\<close>, \<open>USER_BANNED_IN_CHANNEL\<close>,
  \<open>PEER_ID_INVALID\<close>, \<open>YOU_BLOCKED_USER\<close> (in any letter case) the pool loses exactly the
  peers whose handle is the one sent to, and for any other text the pool is unchanged.
\<close>

theorem permanent_rejection_prunes:
  assumes "client svc"
    and "tr (length (sent w)) = SendThrows (OtherError msg)"
  shows "fst (sendMessageTo tr (svc, w) inp message) = False
       \<and> writablePeers (fst (snd (sendMessageTo tr (svc, w) inp message)))
           = (if removePeerError msg
              then filter (\<lambda>p. input p \<noteq> inp) (writablePeers svc)
              else writablePeers svc)"
  using assms
  by (simp add: sendMessageTo_def client_sendMessage_def)

text \<open>A rejection of a send to the first peer of the example pool removes that peer and
  keeps the other; a timeout keeps both.\<close>

theorem permanent_rejection_prunes_witness:
  "client service0
   \<and> failWith ''400: chat_write_forbidden'' (length (sent world0))
     = SendThrows (OtherError ''400: chat_write_forbidden'')
   \<and> writablePeers (fst (snd (sendMessageTo (failWith ''400: chat_write_forbidden'')
                                 (service0, world0) 11 ''hi'')))
       = [\<lparr>title = ''Work'', input = 15, id' = ''channel_7''\<rparr>]
   \<and> writablePeers (fst (snd (sendMessageTo (failWith ''TIMEOUT'') (service0, world0) 11 ''hi'')))
       = writablePeers service0"
proof -
  have h: "failWith t (length (sent world0)) = SendThrows (OtherError t)" for t
    by (simp add: failWith_def)
  have cl: "client service0" by (simp add: service0_def)
  have r1: "removePeerError ''400: chat_write_forbidden''" by code_simp
  have r2: "\<not> removePeerError ''TIMEOUT''" by code_simp
  from permanent_rejection_prunes [where tr = "failWith ''400: chat_write_forbidden''" and w = world0
        and svc = service0 and inp = 11 and message = "''hi''", OF cl h]
    permanent_rejection_prunes [where tr = "failWith ''TIMEOUT''" and w = world0
        and svc = service0 and inp = 11 and message = "''hi''", OF cl h]
  show ?thesis using cl h [of "''400: chat_write_forbidden''"] r1 r2
    by (simp add: service0_def)
qed

section \<open>The multi-account coordinator\<close>

lemma set_intersectLoop:
  "set (intersectLoop common ss) = set common \<inter> (\<Inter>s\<in>set ss. set s)"
  by (induction ss arbitrary: common) auto

lemma set_idSet: "set (idSet c) = fst ` set (cs_writablePeers c)"
  by (simp add: idSet_def)

text \<open>
  C6. With at least one account, the common ids are computed, and they are exactly the ids
  that are keys of every account's pool map; when some account's pool is empty, there is
  no common id.
\<close>

theorem commonIds_is_intersection:
  assumes "cls \<noteq> []"
  shows "\<exists>ids. computeCommonIds cls = Some ids
           \<and> set ids = (\<Inter>c\<in>set cls. fst ` set (cs_writablePeers c))
           \<and> ((\<exists>c\<in>set cls. cs_writablePeers c = []) \<longrightarrow> ids = [])"
proof -
  from assms obtain c0 rest where cls: "cls = c0 # rest"
    by (cases cls) auto
  let ?ids = "intersectLoop (idSet c0) (map idSet rest)"
  have 1: "computeCommonIds cls = Some ?ids"
    by (simp add: computeCommonIds_def cls)
  have 2: "set ?ids = (\<Inter>c\<in>set cls. fst ` set (cs_writablePeers c))"
    by (simp add: set_intersectLoop set_idSet cls)
  have 3: "(\<exists>c\<in>set cls. cs_writablePeers c = []) \<longrightarrow> ?ids = []"
  proof
    assume "\<exists>c\<in>set cls. cs_writablePeers c = []"
    then obtain c where "c \<in> set cls" and "cs_writablePeers c = []" by blast
    then have "(\<Inter>c\<in>set cls. fst ` set (cs_writablePeers c)) = {}"
      by force
    with 2 show "?ids = []" by simp
  qed
  show ?thesis using 1 2 3 by blast
qed

text \<open>Two accounts that share the basic group, and the same two with a third whose pool is
  empty.\<close>

theorem commonIds_is_intersection_witness:
  "[alice, bob] \<noteq> [] \<and> computeCommonIds [alice, bob] = Some [''chat_5'']
   \<and> carol \<in> set [alice, bob, carol] \<and> cs_writablePeers carol = []
   \<and> computeCommonIds [alice, bob, carol] = Some []"
proof -
  have h1: "[alice, bob] \<noteq> []" by simp
  have h2: "[alice, bob, carol] \<noteq> []" by simp
  have c: "cs_writablePeers carol = []" by (simp add: carol_eq)
  have 1: "computeCommonIds [alice, bob] = Some [''chat_5'']"
    by (simp add: computeCommonIds_def idSet_def alice_eq bob_eq)
  from commonIds_is_intersection [OF h1] commonIds_is_intersection [OF h2]
  show ?thesis using 1 c by auto
qed




subsection \<open>Comment templates\<close>

lemma collectTexts_nonempty:
  "[] \<notin> set texts \<Longrightarrow> [] \<notin> set (collectTexts texts ms)"
  by (induction ms arbitrary: texts) (auto simp: Let_def)

lemma fetch_nonempty_templates: "[] \<notin> set (fetchCommentTemplates getMessages limit)"
  by (simp add: fetchCommentTemplates_def collectTexts_nonempty split: option.splits)

text \<open>The refresh of the timer keeps the cache when its fetch is empty, and otherwise
  replaces it by the fetched list.\<close>

lemma timer_refresh_cache:
  "commentsCache (refreshComments getMessages m)
     = (if fetchCommentTemplates getMessages (historyLimit m) = [] then commentsCache m
        else fetchCommentTemplates getMessages (historyLimit m))"
  by (simp add: refreshComments_def Let_def)

text \<open>
  C7 fails on the code, in the refresh on demand. The handler finds the cache empty and
  awaits its own fetch; meanwhile the refresh timer fires and fills the cache with the
  template \<open>hello\<close>; the handler's fetch then fails and returns the empty list, and the
  handler assigns it without the test that the timer's refresh makes: the cache that held
  a template is empty again, and the event is dropped for want of a comment.
\<close>

theorem on_demand_refresh_empties_cache:
  "commentsCache multiEmpty = []
   \<and> commentsCache (fst (timerFires (multiEmpty, world0))) = [''hello'']
   \<and> fetchCommentTemplates failingHistory (historyLimit multiEmpty) = []
   \<and> fst (handler allOk failingHistory timerFires draws0 (multiEmpty, world0) (postBy 555))
       = NoComment
   \<and> commentsCache (fst (snd (handler allOk failingHistory timerFires draws0
                                (multiEmpty, world0) (postBy 555)))) = []"
proof -
  have m: "multiEmpty = \<lparr>clients = [alice, bob], commonIds = [''chat_5''],
      commentsCache = [], ignore_probability = 1 / 2, max_comment_history = 200\<rparr>"
    by (simp add: multiEmpty_def multi0_def)
  have f: "fetchCommentTemplates freshHistory 200 = [''hello'']"
    by (simp add: fetchCommentTemplates_def freshHistory_def messageText_def truthy_def
        trim_def whiteSpace_def leading_def)
  have 1: "commentsCache multiEmpty = []"
    by (simp add: m)
  have 2: "commentsCache (fst (timerFires (multiEmpty, world0))) = [''hello'']"
    by (simp add: timerFires_def timer_refresh_cache historyLimit_def m f)
  have 3: "fetchCommentTemplates failingHistory (historyLimit multiEmpty) = []"
    by (simp add: fetchCommentTemplates_def failingHistory_def)
  have 4: "handler allOk failingHistory timerFires draws0 (multiEmpty, world0) (postBy 555)
             = (NoComment, (fst (timerFires (multiEmpty, world0)))\<lparr>commentsCache := []\<rparr>,
                snd (timerFires (multiEmpty, world0)))"
    unfolding m alice_eq bob_eq
    by (simp add: handler_def authoredByUs_def senderUid_def pickComment_def pickRandom_def
        fetchCommentTemplates_def failingHistory_def peer_simps draws0_def postBy_def
        friendsChat_def Let_def)
  show ?thesis using 1 2 3 by (simp add: 4)
qed

end
